theory Spec2Isabelle
  imports Main "HOL-Library.Word"
begin

section \<open>The LLAMA-16 assembler (\<^verbatim>\<open>src/asm/core.py\<close>)\<close>

text \<open>
  The assembler is one Python class, \<^verbatim>\<open>Assembler\<close>, whose methods read and write
  the attributes of \<^verbatim>\<open>self\<close>. The embedding passes that object around as a record
  and returns it updated. Every way a method can stop early is a value of the type
  \<open>error\<close>: \<^verbatim>\<open>write_error\<close> (a message and \<^verbatim>\<open>sys.exit(1)\<close>) and the
  exceptions Python raises by itself and that nothing catches.

  A Python \<^verbatim>\<open>str\<close> is modelled as a \<open>string\<close> whose characters are the code points
  0 to 255; source text with code points above 255 is outside the model. The tables
  behind \<^verbatim>\<open>isspace\<close>, \<^verbatim>\<open>lower\<close>, \<^verbatim>\<open>isdigit\<close> and \<^verbatim>\<open>isalnum\<close> are Python's,
  restricted to that range. \<^verbatim>\<open>debug_mode\<close> only switches printing on and is left out.
\<close>

subsection \<open>Errors\<close>

text \<open>
  \<open>Exit n msg\<close> is \<^verbatim>\<open>write_error(msg)\<close> reporting source line \<open>n\<close>. The others are
  uncaught Python exceptions.
\<close>

datatype error =
    Exit int string
  | TypeError
  | ValueError
  | OverflowError
  | KeyError
  | RecursionError

definition and_then :: "error + 'a \<Rightarrow> ('a \<Rightarrow> error + 'b) \<Rightarrow> error + 'b" where
  "and_then r f = (case r of Inl e \<Rightarrow> Inl e | Inr x \<Rightarrow> f x)"

subsection \<open>The methods of \<^verbatim>\<open>str\<close> the assembler calls\<close>

definition dq :: char where
  "dq = CHR 0x22"

definition sq :: char where
  "sq = CHR 0x27"

definition nul :: char where
  "nul = CHR 0x00"

definition isspace :: "char \<Rightarrow> bool" where
  "isspace c = ((of_char c :: nat) \<in> {9, 10, 11, 12, 13, 28, 29, 30, 31, 32, 133, 160})"

definition lstrip :: "string \<Rightarrow> string" where
  "lstrip s = dropWhile isspace s"

definition rstrip :: "string \<Rightarrow> string" where
  "rstrip s = rev (dropWhile isspace (rev s))"

definition strip :: "string \<Rightarrow> string" where
  "strip s = rstrip (lstrip s)"

text \<open>\<^verbatim>\<open>s.strip(chars)\<close>: every leading and trailing character that is in \<open>chars\<close>.\<close>

definition strip_chars :: "string \<Rightarrow> string \<Rightarrow> string" where
  "strip_chars s chars =
     rev (dropWhile (\<lambda>c. c \<in> set chars) (rev (dropWhile (\<lambda>c. c \<in> set chars) s)))"

definition lower_char :: "char \<Rightarrow> char" where
  "lower_char c =
     (let n = (of_char c :: nat)
      in if (65 \<le> n \<and> n \<le> 90) \<or> (192 \<le> n \<and> n \<le> 222 \<and> n \<noteq> 215)
         then char_of (n + 32) else c)"

definition lower :: "string \<Rightarrow> string" where
  "lower s = map lower_char s"

definition startswith :: "string \<Rightarrow> string \<Rightarrow> bool" where
  "startswith s p = (take (length p) s = p)"

text \<open>\<^verbatim>\<open>s.translate({9: 32})\<close> and \<^verbatim>\<open>s.translate({k: None, ...})\<close>.\<close>

definition translate_tab :: "string \<Rightarrow> string" where
  "translate_tab s = map (\<lambda>c. if c = CHR 0x09 then CHR '' '' else c) s"

definition translate_del :: "string \<Rightarrow> string \<Rightarrow> string" where
  "translate_del s ks = filter (\<lambda>c. c \<notin> set ks) s"

text \<open>
  \<open>find_sep sep s\<close> is the text before and after the first occurrence of \<open>sep\<close> in
  \<open>s\<close>. \<^verbatim>\<open>partition\<close> splits there; \<^verbatim>\<open>rpartition\<close> splits at the last occurrence,
  which is the first one read backwards. A missing separator gives
  \<^verbatim>\<open>(s, "", "")\<close> and \<^verbatim>\<open>("", "", s)\<close>.
\<close>

fun find_sep :: "string \<Rightarrow> string \<Rightarrow> (string \<times> string) option" where
  "find_sep sep [] = (if sep = [] then Some ([], []) else None)"
| "find_sep sep (c # cs) =
     (if take (length sep) (c # cs) = sep then Some ([], drop (length sep) (c # cs))
      else (case find_sep sep cs of None \<Rightarrow> None | Some (l, r) \<Rightarrow> Some (c # l, r)))"

definition partition_str :: "string \<Rightarrow> string \<Rightarrow> string \<times> string \<times> string" where
  "partition_str s sep =
     (case find_sep sep s of None \<Rightarrow> (s, [], []) | Some (l, r) \<Rightarrow> (l, sep, r))"

definition rpartition :: "string \<Rightarrow> string \<Rightarrow> string \<times> string \<times> string" where
  "rpartition s sep =
     (case find_sep (rev sep) (rev s) of
        None \<Rightarrow> ([], [], s)
      | Some (l, r) \<Rightarrow> (rev r, sep, rev l))"

text \<open>\<^verbatim>\<open>s.split('.')[0]\<close>: the text before the first dot.\<close>

definition split_dot_0 :: "string \<Rightarrow> string" where
  "split_dot_0 s = takeWhile (\<lambda>c. c \<noteq> CHR ''.'') s"

text \<open>\<^verbatim>\<open>s.replace(old, new)\<close> for a two-character \<open>old\<close>, left to right.\<close>

fun replace_str :: "char \<Rightarrow> char \<Rightarrow> string \<Rightarrow> string \<Rightarrow> string" where
  "replace_str a b new (x # y # zs) =
     (if x = a \<and> y = b then new @ replace_str a b new zs
      else x # replace_str a b new (y # zs))"
| "replace_str a b new xs = xs"

definition isdecimal_char :: "char \<Rightarrow> bool" where
  "isdecimal_char c = (48 \<le> (of_char c :: nat) \<and> (of_char c :: nat) \<le> 57)"

definition isdigit_char :: "char \<Rightarrow> bool" where
  "isdigit_char c = (isdecimal_char c \<or> (of_char c :: nat) \<in> {178, 179, 185})"

definition isalnum_char :: "char \<Rightarrow> bool" where
  "isalnum_char c =
     (let n = (of_char c :: nat)
      in (48 \<le> n \<and> n \<le> 57) \<or> (65 \<le> n \<and> n \<le> 90) \<or> (97 \<le> n \<and> n \<le> 122)
         \<or> n \<in> {170, 178, 179, 181, 185, 186, 188, 189, 190}
         \<or> (192 \<le> n \<and> n \<le> 214) \<or> (216 \<le> n \<and> n \<le> 246) \<or> 248 \<le> n)"

definition isdigit :: "string \<Rightarrow> bool" where
  "isdigit s = (s \<noteq> [] \<and> list_all isdigit_char s)"

definition isalnum :: "string \<Rightarrow> bool" where
  "isalnum s = (s \<noteq> [] \<and> list_all isalnum_char s)"

text \<open>
  \<^verbatim>\<open>int(s)\<close> on a string: surrounding whitespace is dropped, one sign is allowed, then
  decimal digits, where single underscores may stand between digits. Anything else
  raises \<^verbatim>\<open>ValueError\<close>. The whitespace \<^verbatim>\<open>int\<close> drops is not that of \<^verbatim>\<open>str.strip\<close>:
  the separators U+001C to U+001F are not part of it, so \<^verbatim>\<open>int("5\x1c")\<close> raises
  \<^verbatim>\<open>ValueError\<close>. (The interpreter's limit on the number of digits is not modelled.)
\<close>

definition isspace_int :: "char \<Rightarrow> bool" where
  "isspace_int c = ((of_char c :: nat) \<in> {9, 10, 11, 12, 13, 32, 133, 160})"

definition digit_val :: "char \<Rightarrow> int" where
  "digit_val c = int (of_char c) - 48"

fun parse_digits :: "int \<Rightarrow> string \<Rightarrow> int option" where
  "parse_digits acc [] = Some acc"
| "parse_digits acc [c] =
     (if isdecimal_char c then Some (10 * acc + digit_val c) else None)"
| "parse_digits acc (c # d # ds) =
     (if isdecimal_char c then parse_digits (10 * acc + digit_val c) (d # ds)
      else if c = CHR ''_'' \<and> isdecimal_char d then parse_digits (10 * acc + digit_val d) ds
      else None)"

definition parse_nat :: "string \<Rightarrow> int option" where
  "parse_nat s =
     (case s of [] \<Rightarrow> None
      | c # cs \<Rightarrow> if isdecimal_char c then parse_digits (digit_val c) cs else None)"

definition py_int :: "string \<Rightarrow> error + int" where
  "py_int s =
     (let t = rev (dropWhile isspace_int (rev (dropWhile isspace_int s)));
          r = (if startswith t ''-'' then map_option uminus (parse_nat (tl t))
               else if startswith t ''+'' then parse_nat (tl t)
               else parse_nat t)
      in case r of None \<Rightarrow> Inl ValueError | Some n \<Rightarrow> Inr n)"

subsection \<open>Bytes\<close>

type_synonym byte = "8 word"

text \<open>\<^verbatim>\<open>bytes(s, encoding='utf-8')\<close> for code points up to 255: one byte below 128, else two.\<close>

definition utf8_char :: "char \<Rightarrow> byte list" where
  "utf8_char c =
     (let n = (of_char c :: nat)
      in if n < 128 then [of_nat n] else [of_nat (192 + n div 64), of_nat (128 + n mod 64)])"

definition utf8 :: "string \<Rightarrow> byte list" where
  "utf8 s = concat (map utf8_char s)"

text \<open>
  \<^verbatim>\<open>n.to_bytes(2, byteorder="little")\<close> and the same with \<^verbatim>\<open>signed=True\<close>; a value
  that does not fit raises \<^verbatim>\<open>OverflowError\<close>.
\<close>

definition to_bytes :: "int \<Rightarrow> error + byte list" where
  "to_bytes n =
     (if 0 \<le> n \<and> n < 65536 then Inr [word_of_int (n mod 256), word_of_int (n div 256)]
      else Inl OverflowError)"

definition to_bytes_signed :: "int \<Rightarrow> error + byte list" where
  "to_bytes_signed n =
     (if - 32768 \<le> n \<and> n < 32768
      then (let u = n mod 65536 in Inr [word_of_int (u mod 256), word_of_int (u div 256)])
      else Inl OverflowError)"

subsection \<open>The assembler object\<close>

text \<open>
  The class attributes of \<^verbatim>\<open>Assembler\<close> (lines 33 to 43) are the fields; \<open>initial\<close> holds
  their class-level values. The symbol table is a Python \<^verbatim>\<open>dict\<close>, kept as an
  association list in insertion order. The attribute \<^verbatim>\<open>output\<close> is the field \<open>output_bytes\<close>
  (\<open>output\<close> is a reserved word here).
\<close>

record assembler =
  line_number :: int
  pass_number :: int
  address :: int
  output_bytes :: "byte list"
  label :: string
  mnemonic :: string
  op1 :: string
  op2 :: string
  comment :: string
  op1_type :: string
  op2_type :: string
  symbol_table :: "(string \<times> int) list"

definition ORIGIN :: int where
  "ORIGIN = 0x4000"

definition registers :: "string list" where
  "registers = [''a'', ''b'', ''c'', ''d'', ''ip'', ''sp'', ''bp'']"

definition initial :: assembler where
  "initial = \<lparr> line_number = 0, pass_number = 1, address = 0, output_bytes = [],
               label = [], mnemonic = [], op1 = [], op2 = [], comment = [],
               op1_type = [], op2_type = [], symbol_table = [] \<rparr>"

definition write_error :: "assembler \<Rightarrow> string \<Rightarrow> error + 'a" where
  "write_error s message = Inl (Exit (line_number s + 1) message)"

definition quoted :: "string \<Rightarrow> string" where
  "quoted t = dq # t @ [dq]"

subsection \<open>Tokenizer: \<^verbatim>\<open>parse_directive\<close> and \<^verbatim>\<open>parse\<close>\<close>

definition parse_directive :: "assembler \<Rightarrow> string \<Rightarrow> error + (string \<times> string \<times> string)" where
  "parse_directive s line =
     (let (left1, sep1, right1) = partition_str line ''.data'';
          d_type = ''.data'';
          (left1, sep1, right1, d_type) =
             (if sep1 = [] then
                (let (l, sp, r) = partition_str line ''.string'' in (l, sp, r, ''.string''))
              else (left1, sep1, right1, d_type))
      in if sep1 = [] then Inr ([], [], [])
         else
           (let directive = d_type;
                d_args = strip right1;
                (left2, sep2, right2) = partition_str left1 '':''
            in if sep2 = '':'' then
                 (let left2 = strip left2
                  in if \<not> isalnum left2 \<or> isdigit (take 1 left2)
                     then write_error s (''Invalid label '' @ quoted left2)
                     else Inr (left2, directive, d_args))
               else if sep2 \<noteq> '':'' \<and> strip left2 \<noteq> []
                    then write_error s (''Invalid label '' @ quoted left2)
                    else Inr ([], directive, d_args)))"

text \<open>
  \<^verbatim>\<open>parse\<close> is one long method; its commented blocks are the definitions below, in
  the order of the source, and \<open>parse\<close> runs them one after the other. A block that
  splits text off returns the object together with the text left of the separator.

  Lines 108 to 118: leading whitespace, tabs, the comment.
\<close>

definition parse_comment :: "assembler \<Rightarrow> string \<Rightarrow> assembler \<times> string" where
  "parse_comment s line =
     (let preprocess = lstrip line;
          preprocess = translate_tab preprocess;
          (comment_left, comment_separator, comment_right) = rpartition preprocess '';''
      in if comment_separator \<noteq> [] then (s\<lparr>comment := strip comment_right\<rparr>, comment_left)
         else (s, rstrip comment_right))"

text \<open>Lines 121 to 125: the fields a recognised directive sets.\<close>

definition parse_directive_fields :: "assembler \<Rightarrow> string \<times> string \<times> string \<Rightarrow> assembler" where
  "parse_directive_fields s d =
     (let (d_label, directive, d_args) = d
      in if directive \<noteq> [] then
           s\<lparr>label := lower d_label, mnemonic := lower directive,
             op1 := lower d_args, op1_type := split_dot_0 directive\<rparr>
         else s)"

text \<open>Lines 132 to 136: the second operand, after the last comma.\<close>

definition parse_op2 :: "assembler \<Rightarrow> string \<Rightarrow> assembler \<times> string" where
  "parse_op2 s comment_left =
     (let (op2_left, op2_separator, op2_right) = rpartition comment_left '',''
      in if op2_separator \<noteq> [] then (s\<lparr>op2 := strip op2_right\<rparr>, op2_left)
         else (s, rstrip op2_right))"

text \<open>Lines 139 to 147: the first operand, after the last tab or else the last space.\<close>

definition parse_op1 :: "assembler \<Rightarrow> string \<Rightarrow> assembler \<times> string" where
  "parse_op1 s op2_left =
     (let (op1_left, op1_separator, op1_right) = rpartition op2_left [CHR 0x09]
      in if op1_separator = [CHR 0x09] then (s\<lparr>op1 := strip op1_right\<rparr>, op1_left)
         else
           (let (op1_left, op1_separator, op1_right) = rpartition op2_left '' ''
            in if op1_separator = '' '' then (s\<lparr>op1 := strip op1_right\<rparr>, op1_left)
               else (s, strip op1_right)))"

text \<open>Lines 150 to 161: label and mnemonic, and the mnemonic that was read as operand 1.\<close>

definition parse_mnemonic :: "assembler \<Rightarrow> string \<Rightarrow> assembler" where
  "parse_mnemonic s op1_left =
     (let (mnemonic_left, mnemonic_separator, mnemonic_right) = rpartition op1_left '':'';
          s = (if mnemonic_separator \<noteq> [] then
                 s\<lparr>mnemonic := strip mnemonic_right, label := strip mnemonic_left\<rparr>
               else s\<lparr>mnemonic := strip (rstrip mnemonic_right)\<rparr>)
      in if mnemonic s = [] \<and> op1 s \<noteq> [] \<and> op2 s = [] then
           s\<lparr>mnemonic := strip (op1 s), op1 := []\<rparr>
         else s)"

text \<open>
  Lines 163 to 193: the operands are lower-cased and classified; operand 1 is compared
  with the first four registers only.
\<close>

definition classify_op1 :: "assembler \<Rightarrow> assembler" where
  "classify_op1 s0 =
     (let s = s0\<lparr>op1 := lower (op1 s0)\<rparr>
      in if op1 s = [] then s
         else if startswith (op1 s) ''['' then
           s\<lparr>op1_type := ''mem_adr'', op1 := translate_del (op1 s) ''[]''\<rparr>
         else if startswith (op1 s) ''#'' then
           s\<lparr>op1_type := ''imm'', op1 := translate_del (op1 s) ''#''\<rparr>
         else if op1 s \<in> set (take 4 registers) then s\<lparr>op1_type := ''reg''\<rparr>
         else s\<lparr>op1_type := ''label'', label := lower (label s)\<rparr>)"

definition classify_op2 :: "assembler \<Rightarrow> assembler" where
  "classify_op2 s0 =
     (let s = s0\<lparr>op2 := lower (op2 s0)\<rparr>
      in if op2 s = [] then s
         else if startswith (op2 s) ''['' then
           s\<lparr>op2_type := ''mem_adr'', op2 := translate_del (op2 s) ''[]''\<rparr>
         else if startswith (op2 s) ''#'' then
           s\<lparr>op2_type := ''imm'', op2 := translate_del (op2 s) ''#''\<rparr>
         else if lower (op2 s) \<in> set registers then s\<lparr>op2_type := ''reg''\<rparr>
         else s\<lparr>op2_type := ''label'', label := lower (label s)\<rparr>)"

definition parse :: "assembler \<Rightarrow> string \<Rightarrow> error + assembler" where
  "parse s0 line =
     (let s = s0\<lparr>label := [], mnemonic := [], comment := [],
                 op1 := [], op1_type := [], op2 := [], op2_type := []\<rparr>;
          (s, comment_left) = parse_comment s line
      in and_then (parse_directive s comment_left) (\<lambda>d.
         let s = parse_directive_fields s d;
             (s, op2_left) = parse_op2 s comment_left;
             (s, op1_left) = parse_op1 s op2_left;
             s = parse_mnemonic s op1_left;
             s = classify_op1 s;
             s = classify_op2 s
         in Inr (s\<lparr>mnemonic := lower (mnemonic s)\<rparr>)))"

subsection \<open>Symbol table and literals\<close>

definition add_label :: "assembler \<Rightarrow> error + assembler" where
  "add_label s =
     (let symbol = lower (label s)
      in if map_of (symbol_table s) symbol \<noteq> None
         then write_error s (''Duplicate label: '' @ quoted (label s))
         else Inr (s\<lparr>symbol_table := symbol_table s @ [(symbol, address s + ORIGIN)]\<rparr>))"

text \<open>
  \<^verbatim>\<open>get_label\<close> tests the lower-cased name but reads the table at the name as given;
  a name that is only there in lower case raises \<^verbatim>\<open>KeyError\<close>.
\<close>

definition get_label :: "assembler \<Rightarrow> string \<Rightarrow> error + int" where
  "get_label s l =
     (if map_of (symbol_table s) (lower l) \<noteq> None
      then (case map_of (symbol_table s) l of None \<Rightarrow> Inl KeyError | Some v \<Rightarrow> Inr v)
      else write_error s (''Undefined label '' @ quoted l))"

definition to_int :: "string \<Rightarrow> error + int option" where
  "to_int val =
     (if isdigit val \<or> startswith val ''-''
      then and_then (py_int val) (\<lambda>n. Inr (Some n))
      else Inr None)"

text \<open>
  \<^verbatim>\<open>self.to_int(x) or self.get_label(x)\<close>: Python's \<^verbatim>\<open>or\<close> takes its right operand
  when the left one is falsy, and both \<^verbatim>\<open>None\<close> and the integer 0 are falsy.
\<close>

definition to_int_or_get_label :: "assembler \<Rightarrow> string \<Rightarrow> error + int" where
  "to_int_or_get_label s x =
     and_then (to_int x) (\<lambda>r.
       case r of
         None \<Rightarrow> get_label s x
       | Some n \<Rightarrow> if n \<noteq> 0 then Inr n else get_label s x)"

definition index :: "string list \<Rightarrow> string \<Rightarrow> int" where
  "index xs x = int (length (takeWhile (\<lambda>y. y \<noteq> x) xs))"

definition register_offset :: "assembler \<Rightarrow> string \<Rightarrow> error + int" where
  "register_offset s reg_in =
     (let reg = lower reg_in
      in if reg \<notin> set registers then write_error s (''Invalid register '' @ quoted reg)
         else Inr (index registers reg))"

definition verify_ops :: "assembler \<Rightarrow> bool \<Rightarrow> error + unit" where
  "verify_ops s valid =
     (if \<not> valid then write_error s (''Invalid operands for mnemonic '' @ quoted (mnemonic s))
      else Inr ())"

subsection \<open>\<^verbatim>\<open>pass_action\<close>\<close>

text \<open>
  \<^verbatim>\<open>int(size/2)\<close> is a float division cut towards zero; the sizes passed are 2 or a
  byte count, far below the range where floats lose integers.
\<close>

definition int_half :: "int \<Rightarrow> int" where
  "int_half sz = (if 0 \<le> sz then sz div 2 else - ((- sz) div 2))"

definition pass_action :: "assembler \<Rightarrow> int \<Rightarrow> byte list \<Rightarrow> error + assembler" where
  "pass_action s sz output_byte =
     (if output_byte = [] then Inr s
      else and_then
             (if pass_number s = 1 then
                (let align = sz mod 2
                 in and_then (if label s \<noteq> [] then add_label s else Inr s) (\<lambda>s.
                      Inr (s\<lparr>address := address s + (int_half sz + align)\<rparr>)))
              else Inr s)
             (\<lambda>s. Inr (s\<lparr>output_bytes := output_bytes s @ output_byte\<rparr>)))"

subsection \<open>Encoder\<close>

text \<open>
  The two \<^verbatim>\<open>match\<close> statements of \<^verbatim>\<open>encode_operand_types\<close> have the pair
  \<^verbatim>\<open>(self.op1_type, num_ops)\<close> as their subject. A sequence pattern such as
  \<^verbatim>\<open>case "imm", 1\<close> matches a pair, element by element; a literal pattern such as
  \<^verbatim>\<open>case "reg"\<close> matches a subject equal to that string.
\<close>

datatype subject = Str string | Tuple2 string int

fun match_seq :: "subject \<Rightarrow> (string \<Rightarrow> bool) \<Rightarrow> int \<Rightarrow> bool" where
  "match_seq (Tuple2 t n) p k = (p t \<and> n = k)"
| "match_seq (Str x) p k = False"

fun match_lit :: "subject \<Rightarrow> string \<Rightarrow> bool" where
  "match_lit (Str x) v = (x = v)"
| "match_lit (Tuple2 t n) v = False"

definition encode_operand_types :: "assembler \<Rightarrow> int \<Rightarrow> int \<Rightarrow> error + int" where
  "encode_operand_types s opcode num_ops =
     (let opcode = push_bit 12 opcode;
          subject = Tuple2 (op1_type s) num_ops
      in and_then
           (if match_seq subject (\<lambda>t. t = ''imm'') 1 then Inr (opcode + push_bit 4 14)
            else if match_lit subject ''reg'' then
              and_then (register_offset s (op1 s)) (\<lambda>r. Inr (opcode + push_bit 4 r))
            else if match_seq subject (\<lambda>t. t = ''mem_adr'' \<or> t = ''label'') 1 then
              Inr (opcode + push_bit 4 15)
            else if match_seq subject (\<lambda>t. t = []) 1 then Inr opcode
            else if match_seq subject (\<lambda>t. True) 1 then
              write_error s (''Invalid operand '' @ quoted (op1 s))
            else Inr opcode)
           (\<lambda>opcode.
              let subject = Tuple2 (op2_type s) num_ops
              in if match_seq subject (\<lambda>t. t = ''reg'') 2 then
                   and_then (register_offset s (op2 s)) (\<lambda>r. Inr (opcode + r))
                 else if match_seq subject (\<lambda>t. t = ''mem_adr'' \<or> t = ''label'') 2 then
                   Inr (opcode + push_bit 4 15)
                 else if match_seq subject (\<lambda>t. t = []) 2 then Inr opcode
                 else if match_seq subject (\<lambda>t. True) 2 then
                   write_error s (''Invalid operand '' @ quoted (op2 s))
                 else Inr opcode))"

subsection \<open>Trailing words\<close>

definition immediate_operand :: "assembler \<Rightarrow> error + assembler" where
  "immediate_operand s =
     (if op1_type s \<notin> {''imm'', ''label''} \<or> pass_number s = 1 then Inr s
      else
        (let s = s\<lparr>address := address s + 1\<rparr>
         in and_then (to_int_or_get_label s (op1 s)) (\<lambda>number.
            and_then (to_bytes_signed number) (\<lambda>b.
            pass_action s 2 b))))"

text \<open>
  In \<^verbatim>\<open>memory_address\<close> the value of \<^verbatim>\<open>to_int(op) or get_label(op)\<close> is an \<^verbatim>\<open>int\<close>
  on every path (\<^verbatim>\<open>to_int\<close> returns \<^verbatim>\<open>int(val)\<close>, \<^verbatim>\<open>get_label\<close> returns
  \<^verbatim>\<open>int(...)\<close>), and \<^verbatim>\<open>int(number, 16)\<close> with a first argument that is not a string
  raises \<^verbatim>\<open>TypeError\<close>.
\<close>

definition int_base_16 :: "int \<Rightarrow> error + int" where
  "int_base_16 number = Inl TypeError"

fun memory_address_loop :: "assembler \<Rightarrow> (string \<times> string) list \<Rightarrow> error + assembler" where
  "memory_address_loop s [] = Inr s"
| "memory_address_loop s ((op_typ, op) # rest) =
     (if op_typ \<noteq> ''mem_adr'' then memory_address_loop s rest
      else
        and_then (to_int_or_get_label s op) (\<lambda>number.
        and_then (int_base_16 number) (\<lambda>number.
        and_then (to_bytes number) (\<lambda>b.
        and_then (pass_action s 2 b) (\<lambda>s.
        memory_address_loop s rest)))))"

definition memory_address :: "assembler \<Rightarrow> error + assembler" where
  "memory_address s =
     (if pass_number s = 1 \<or> \<not> (op1_type s = ''mem_adr'' \<or> op2_type s = ''mem_adr'')
      then Inr s
      else
        (let s = s\<lparr>address := address s + 1\<rparr>
         in memory_address_loop s [(op1_type s, op1 s), (op2_type s, op2 s)]))"

subsection \<open>Mnemonic handlers\<close>

text \<open>
  The methods \<^verbatim>\<open>_mv\<close> to \<^verbatim>\<open>_hlt\<close>, in the order of the source; a Python name with a
  leading underscore is written with the prefix \<open>h_\<close>. Truthiness of
  \<^verbatim>\<open>self.op1 and self.op2\<close> and its kin is non-emptiness of the strings.
\<close>

definition h_mv :: "assembler \<Rightarrow> error + assembler" where
  "h_mv s =
     and_then (verify_ops s (op1 s \<noteq> [] \<and> op2 s \<noteq> [])) (\<lambda>_.
       let opcode = 0
       in and_then (encode_operand_types s opcode 2) (\<lambda>opcode.
        and_then (to_bytes opcode) (\<lambda>b.
        and_then (pass_action s 2 b) (\<lambda>s.
        and_then (immediate_operand s) memory_address))))"

definition h_io :: "assembler \<Rightarrow> error + assembler" where
  "h_io s =
     and_then (verify_ops s (op1 s \<noteq> [] \<and> op2 s \<noteq> [])) (\<lambda>_.
     and_then (if op1_type s = ''imm'' \<and> op2 s = ''in''
               then write_error s ''Cannot read word into an immediate.'' else Inr ()) (\<lambda>_.
       let opcode = 1
       in and_then (encode_operand_types s opcode 1) (\<lambda>opcode.
        and_then (if lower (op2 s) = ''in'' then Inr (opcode + 1)
                  else if lower (op2 s) = ''out'' then Inr (opcode + 2)
                  else write_error s (''Error parsing io port. '' @ op2 s
                                       @ '' is not a valid port, use IN or OUT.'')) (\<lambda>opcode.
        and_then (to_bytes opcode) (\<lambda>b.
        and_then (pass_action s 2 b) (\<lambda>s.
        and_then (immediate_operand s) memory_address))))))"

definition h_push :: "assembler \<Rightarrow> error + assembler" where
  "h_push s =
     and_then (verify_ops s (op1 s \<noteq> [] \<and> op2 s = [])) (\<lambda>_.
       let opcode = 2
       in and_then (encode_operand_types s opcode 1) (\<lambda>opcode.
        and_then (to_bytes opcode) (\<lambda>b.
        and_then (pass_action s 2 b) (\<lambda>s.
        and_then (immediate_operand s) memory_address))))"

definition h_pop :: "assembler \<Rightarrow> error + assembler" where
  "h_pop s =
     and_then (verify_ops s (op1 s \<noteq> [] \<and> op2 s = [])) (\<lambda>_.
       let opcode = 3
       in and_then (encode_operand_types s opcode 1) (\<lambda>opcode.
        and_then (to_bytes opcode) (\<lambda>b.
        and_then (pass_action s 2 b) memory_address)))"

definition h_add :: "assembler \<Rightarrow> error + assembler" where
  "h_add s =
     and_then (verify_ops s (op1 s \<noteq> [] \<and> op2 s \<noteq> [])) (\<lambda>_.
       let opcode = 4
       in and_then (encode_operand_types s opcode 2) (\<lambda>opcode.
        and_then (to_bytes opcode) (\<lambda>b.
        and_then (pass_action s 2 b) (\<lambda>s.
        and_then (immediate_operand s) memory_address))))"

definition h_sub :: "assembler \<Rightarrow> error + assembler" where
  "h_sub s =
     and_then (verify_ops s (op1 s \<noteq> [] \<and> op2 s \<noteq> [])) (\<lambda>_.
       let opcode = 5
       in and_then (encode_operand_types s opcode 2) (\<lambda>opcode.
        and_then (to_bytes opcode) (\<lambda>b.
        and_then (pass_action s 2 b) (\<lambda>s.
        and_then (immediate_operand s) memory_address))))"

definition h_inc :: "assembler \<Rightarrow> error + assembler" where
  "h_inc s =
     and_then (verify_ops s (op1 s \<noteq> [] \<and> op2 s = [])) (\<lambda>_.
       let opcode = 6
       in and_then (encode_operand_types s opcode 1) (\<lambda>opcode.
        and_then (to_bytes opcode) (\<lambda>b.
        pass_action s 2 b)))"

definition h_dec :: "assembler \<Rightarrow> error + assembler" where
  "h_dec s =
     and_then (verify_ops s (op1 s \<noteq> [] \<and> op2 s = [])) (\<lambda>_.
       let opcode = 7
       in and_then (encode_operand_types s opcode 1) (\<lambda>opcode.
        and_then (to_bytes opcode) (\<lambda>b.
        pass_action s 2 b)))"

definition h_and :: "assembler \<Rightarrow> error + assembler" where
  "h_and s =
     and_then (verify_ops s (op1 s \<noteq> [] \<and> op2 s \<noteq> [])) (\<lambda>_.
       let opcode = 8
       in and_then (encode_operand_types s opcode 2) (\<lambda>opcode.
        and_then (to_bytes opcode) (\<lambda>b.
        and_then (pass_action s 2 b) (\<lambda>s.
        and_then (immediate_operand s) memory_address))))"

definition h_or :: "assembler \<Rightarrow> error + assembler" where
  "h_or s =
     and_then (verify_ops s (op1 s \<noteq> [] \<and> op2 s \<noteq> [])) (\<lambda>_.
       let opcode = 9
       in and_then (encode_operand_types s opcode 2) (\<lambda>opcode.
        and_then (to_bytes opcode) (\<lambda>b.
        and_then (pass_action s 2 b) (\<lambda>s.
        and_then (immediate_operand s) memory_address))))"

definition h_not :: "assembler \<Rightarrow> error + assembler" where
  "h_not s =
     and_then (verify_ops s (op1 s \<noteq> [] \<and> op2 s \<noteq> [])) (\<lambda>_.
       let opcode = 10
       in and_then (encode_operand_types s opcode 2) (\<lambda>opcode.
        and_then (to_bytes opcode) (\<lambda>b.
        and_then (pass_action s 2 b) (\<lambda>s.
        and_then (immediate_operand s) memory_address))))"

definition h_cmp :: "assembler \<Rightarrow> error + assembler" where
  "h_cmp s =
     and_then (verify_ops s (op1 s \<noteq> [] \<and> op2 s \<noteq> [])) (\<lambda>_.
       let opcode = 11
       in and_then (encode_operand_types s opcode 2) (\<lambda>opcode.
        and_then (to_bytes opcode) (\<lambda>b.
        and_then (pass_action s 2 b) (\<lambda>s.
        and_then (immediate_operand s) memory_address))))"

definition h_call :: "assembler \<Rightarrow> error + assembler" where
  "h_call s =
     and_then (verify_ops s (op1 s \<noteq> [] \<and> op2 s = [])) (\<lambda>_.
       let opcode = 12
       in and_then (encode_operand_types s opcode 1) (\<lambda>opcode.
        and_then (to_bytes opcode) (\<lambda>b.
        and_then (pass_action s 2 b) immediate_operand)))"

definition h_jnz :: "assembler \<Rightarrow> error + assembler" where
  "h_jnz s =
     and_then (verify_ops s (op1 s \<noteq> [] \<and> op2 s = [])) (\<lambda>_.
       let opcode = 13
       in and_then (encode_operand_types s opcode 1) (\<lambda>opcode.
        and_then (to_bytes opcode) (\<lambda>b.
        and_then (pass_action s 2 b) immediate_operand)))"

definition h_ret :: "assembler \<Rightarrow> error + assembler" where
  "h_ret s =
     and_then (verify_ops s (\<not> (op1 s \<noteq> [] \<or> op2 s \<noteq> []))) (\<lambda>_.
       pass_action s 2 [0x00, 0xE0])"

definition h_hlt :: "assembler \<Rightarrow> error + assembler" where
  "h_hlt s =
     and_then (verify_ops s (\<not> (op1 s \<noteq> [] \<or> op2 s \<noteq> []))) (\<lambda>_.
       pass_action s 2 [0x00, 0xF0])"

subsection \<open>Directives\<close>

text \<open>
  In \<^verbatim>\<open>directive_data\<close> the \<^verbatim>\<open>try\<close> block spans \<^verbatim>\<open>int\<close>, \<^verbatim>\<open>to_bytes\<close> and
  \<^verbatim>\<open>pass_action\<close>, and only \<^verbatim>\<open>ValueError\<close> is caught.
\<close>

definition directive_data :: "assembler \<Rightarrow> error + assembler" where
  "directive_data s =
     and_then (if label s = [] then write_error s ''.data and .string directives must be labeled''
               else Inr ()) (\<lambda>_.
     and_then (verify_ops s (op1 s \<noteq> [] \<and> op2 s = [])) (\<lambda>_.
       case and_then (py_int (op1 s)) (\<lambda>data.
            and_then (to_bytes_signed data) (\<lambda>b.
            pass_action s 2 b)) of
         Inl ValueError \<Rightarrow> write_error s (''Error reading '' @ quoted (op1 s) @ '', not an integer'')
       | r \<Rightarrow> r))"

definition directive_string :: "assembler \<Rightarrow> error + assembler" where
  "directive_string s =
     and_then (if label s = [] then write_error s ''.data and .string directives must be labeled''
               else Inr ()) (\<lambda>_.
     and_then (verify_ops s (op1 s \<noteq> [] \<and> op2 s = [])) (\<lambda>_.
       let string = op1 s;
           string = strip_chars (strip_chars string [dq]) [sq];
           string = (if length string mod 2 \<noteq> 0 then string @ [nul] else string @ [nul, nul]);
           data = utf8 string
       in pass_action s (int (length data)) data))"

subsection \<open>Dispatch and the two passes\<close>

text \<open>
  \<^verbatim>\<open>process\<close> builds an attribute name from the mnemonic and calls that attribute. The
  name begins with an underscore or with \<^verbatim>\<open>directive_\<close>. The attributes of the class
  with such a name are the eighteen handlers and \<^verbatim>\<open>_assemble_line\<close>; the other attributes
  with such a name are those every Python object has (CPython 3.11), listed in
  \<open>other_attributes\<close> with what a call without arguments does:
  \<^item> \<open>Returns\<close>: the call returns a value that \<^verbatim>\<open>process\<close> drops, and the object is as
    before;
  \<^item> \<open>Raises e\<close>: the call raises \<open>e\<close>. \<^verbatim>\<open>_assemble_line\<close> and the comparison and
    attribute methods need an argument, and \<^verbatim>\<open>__dict__\<close>, \<^verbatim>\<open>__doc__\<close>, \<^verbatim>\<open>__module__\<close> and
    \<^verbatim>\<open>__weakref__\<close> are not callable: \<^verbatim>\<open>TypeError\<close>. \<^verbatim>\<open>__init__\<close> and \<^verbatim>\<open>__class__\<close> run
    the constructor again, which reads the same file, meets the same line and calls
    itself without end, until Python raises \<^verbatim>\<open>RecursionError\<close>.
  For every other name \<^verbatim>\<open>hasattr\<close> is false.
\<close>

datatype builtin = Returns | Raises error

definition other_attributes :: "(string \<times> builtin) list" where
  "other_attributes =
     [(''_assemble_line'', Raises TypeError),
      (''__class__'', Raises RecursionError), (''__delattr__'', Raises TypeError),
      (''__dict__'', Raises TypeError), (''__dir__'', Returns),
      (''__doc__'', Raises TypeError), (''__eq__'', Raises TypeError),
      (''__format__'', Raises TypeError), (''__ge__'', Raises TypeError),
      (''__getattribute__'', Raises TypeError), (''__getstate__'', Returns),
      (''__gt__'', Raises TypeError), (''__hash__'', Returns),
      (''__init__'', Raises RecursionError), (''__init_subclass__'', Returns),
      (''__le__'', Raises TypeError), (''__lt__'', Raises TypeError),
      (''__module__'', Raises TypeError), (''__ne__'', Raises TypeError),
      (''__new__'', Raises TypeError), (''__reduce__'', Returns),
      (''__reduce_ex__'', Raises TypeError), (''__repr__'', Returns),
      (''__setattr__'', Raises TypeError), (''__sizeof__'', Returns),
      (''__str__'', Returns), (''__subclasshook__'', Returns),
      (''__weakref__'', Raises TypeError)]"

definition handlers :: "(string \<times> (assembler \<Rightarrow> error + assembler)) list" where
  "handlers =
     [(''_mv'', h_mv), (''_io'', h_io), (''_push'', h_push), (''_pop'', h_pop),
      (''_add'', h_add), (''_sub'', h_sub), (''_inc'', h_inc), (''_dec'', h_dec),
      (''_and'', h_and), (''_or'', h_or), (''_not'', h_not), (''_cmp'', h_cmp),
      (''_call'', h_call), (''_jnz'', h_jnz), (''_ret'', h_ret), (''_hlt'', h_hlt),
      (''directive_data'', directive_data), (''directive_string'', directive_string)]"

definition process :: "assembler \<Rightarrow> error + assembler" where
  "process s =
     (if mnemonic s = [] \<and> \<not> (op1 s \<noteq> [] \<and> op2 s \<noteq> []) then Inr s
      else
        (let name = replace_str (CHR ''_'') (CHR ''.'') ''directive_'' (''_'' @ mnemonic s)
         in case map_of handlers name of
              Some handler \<Rightarrow> handler s
            | None \<Rightarrow>
                (case map_of other_attributes name of
                   Some Returns \<Rightarrow> Inr s
                 | Some (Raises e) \<Rightarrow> Inl e
                 | None \<Rightarrow> write_error s (''Unrecognized mnemonic '' @ quoted (mnemonic s)))))"

definition assemble_line :: "assembler \<Rightarrow> string \<Rightarrow> error + assembler" where
  "assemble_line s line =
     and_then (parse s line) (\<lambda>s.
     and_then (process s) (\<lambda>s.
     Inr (s\<lparr>line_number := line_number s + 1\<rparr>)))"

fun assemble_lines :: "assembler \<Rightarrow> string list \<Rightarrow> error + assembler" where
  "assemble_lines s [] = Inr s"
| "assemble_lines s (line # lines) =
     and_then (assemble_line s line) (\<lambda>s. assemble_lines s lines)"

text \<open>
  \<^verbatim>\<open>hasattr(self, 'pass_number')\<close> asks whether the object has the attribute. The class
  body binds \<^verbatim>\<open>pass_number\<close> (line 33), so every instance has it from the start.
\<close>

definition hasattr_pass_number :: "assembler \<Rightarrow> bool" where
  "hasattr_pass_number s = True"

definition assemble :: "assembler \<Rightarrow> string list \<Rightarrow> error + assembler" where
  "assemble s lines =
     (let s = s\<lparr>pass_number := (if \<not> hasattr_pass_number s then 1 else pass_number s + 1)\<rparr>
      in assemble_lines s lines)"

text \<open>
  \<^verbatim>\<open>__init__\<close> reads the source file twice and calls \<^verbatim>\<open>assemble\<close> on its lines each
  time (lines 51 and 52, commented \<^verbatim>\<open>Pass 1\<close> and \<^verbatim>\<open>Pass 2\<close>); \<open>two_passes\<close> is
  these two calls on a fresh object.
\<close>

definition two_passes :: "string list \<Rightarrow> error + assembler" where
  "two_passes lines = and_then (assemble initial lines) (\<lambda>s. assemble s lines)"

text \<open>
  After the two passes \<^verbatim>\<open>__init__\<close> chooses the file names and writes the files
  (lines 55 to 59). Line 56 reads \<^verbatim>\<open>args.symab\<close>, while \<^verbatim>\<open>AssemblerConfig\<close> stores the
  flag as \<^verbatim>\<open>symtab\<close>. That part of \<^verbatim>\<open>__init__\<close> is not modelled: the claims below are
  about the state the two passes build.
\<close>

subsection \<open>What a pass leaves alone\<close>

text \<open>
  No method assigns \<^verbatim>\<open>pass_number\<close> but \<^verbatim>\<open>assemble\<close>, and only \<^verbatim>\<open>add_label\<close>, called
  from the first-pass branch of \<^verbatim>\<open>pass_action\<close>, writes the symbol table. \<open>unchanged s s'\<close>
  says so of a step from \<open>s\<close> to \<open>s'\<close>.
\<close>

definition unchanged :: "assembler \<Rightarrow> assembler \<Rightarrow> bool" where
  "unchanged s s' \<longleftrightarrow>
     pass_number s' = pass_number s \<and>
     (pass_number s \<noteq> 1 \<longrightarrow> symbol_table s' = symbol_table s)"

section \<open>Proofs\<close>

subsection \<open>Unfolding the model on concrete source text\<close>

lemmas str_defs = partition_str_def rpartition_def lstrip_def rstrip_def strip_def strip_chars_def
  translate_tab_def translate_del_def isspace_def lower_def lower_char_def startswith_def
  split_dot_0_def isdigit_def isalnum_def isdigit_char_def isalnum_char_def isdecimal_char_def
  py_int_def isspace_int_def parse_nat_def digit_val_def quoted_def dq_def sq_def nul_def
  utf8_def utf8_char_def char_of_def bit_0

lemmas parse_defs = parse_def parse_comment_def parse_directive_def parse_directive_fields_def
  parse_op2_def parse_op1_def parse_mnemonic_def classify_op1_def classify_op2_def registers_def

lemmas asm_defs = and_then_def write_error_def add_label_def get_label_def to_int_def
  to_int_or_get_label_def
  index_def register_offset_def verify_ops_def int_half_def pass_action_def
  encode_operand_types_def immediate_operand_def int_base_16_def memory_address_def
  to_bytes_def to_bytes_signed_def process_def handlers_def assemble_line_def assemble_def
  hasattr_pass_number_def two_passes_def initial_def ORIGIN_def
  h_mv_def h_io_def h_push_def h_pop_def h_add_def h_sub_def h_inc_def h_dec_def h_and_def
  h_or_def h_not_def h_cmp_def h_call_def h_jnz_def h_ret_def h_hlt_def directive_data_def
  directive_string_def

lemma and_then_Inr: "and_then r f = Inr y \<longleftrightarrow> (\<exists>x. r = Inr x \<and> f x = Inr y)"
  by (cases r) (simp_all add: and_then_def)

subsection \<open>Frame lemmas\<close>

lemma unchanged_refl [simp]: "unchanged s s"
  by (simp add: unchanged_def)

lemma unchanged_trans: "unchanged s t \<Longrightarrow> unchanged t u \<Longrightarrow> unchanged s u"
  by (simp add: unchanged_def)

lemma add_label_pass_number: "add_label s = Inr s' \<Longrightarrow> pass_number s' = pass_number s"
  by (auto simp: add_label_def write_error_def Let_def split: if_splits)

lemma pass_action_unchanged: "pass_action s sz b = Inr s' \<Longrightarrow> unchanged s s'"
  by (auto simp: pass_action_def and_then_Inr unchanged_def Let_def
      dest: add_label_pass_number split: if_splits)

lemma immediate_operand_unchanged: "immediate_operand s = Inr s' \<Longrightarrow> unchanged s s'"
  by (auto simp: immediate_operand_def and_then_Inr Let_def unchanged_def
      dest!: pass_action_unchanged split: if_splits)

lemma memory_address_loop_unchanged: "memory_address_loop s ops = Inr s' \<Longrightarrow> unchanged s s'"
  by (induction ops arbitrary: s)
     (auto simp: and_then_Inr int_base_16_def split: if_splits)

lemma memory_address_unchanged: "memory_address s = Inr s' \<Longrightarrow> unchanged s s'"
proof (cases "pass_number s = 1 \<or> \<not> (op1_type s = ''mem_adr'' \<or> op2_type s = ''mem_adr'')")
  case True
  assume "memory_address s = Inr s'"
  with True show ?thesis by (auto simp: memory_address_def)
next
  case False
  assume "memory_address s = Inr s'"
  with False
  have "memory_address_loop (s\<lparr>address := address s + 1\<rparr>)
          [(op1_type s, op1 s), (op2_type s, op2 s)] = Inr s'"
    by (simp add: memory_address_def Let_def del: memory_address_loop.simps)
  from memory_address_loop_unchanged [OF this] show ?thesis
    by (simp add: unchanged_def)
qed

lemmas steps_unchanged = pass_action_unchanged immediate_operand_unchanged
  memory_address_unchanged

lemma handlers_unchanged: "(n, h) \<in> set handlers \<Longrightarrow> h s = Inr s' \<Longrightarrow> unchanged s s'"
  unfolding handlers_def h_mv_def h_io_def h_push_def h_pop_def h_add_def h_sub_def h_inc_def
    h_dec_def h_and_def h_or_def h_not_def h_cmp_def h_call_def h_jnz_def h_ret_def h_hlt_def
    directive_data_def directive_string_def Let_def
  by (auto simp: and_then_Inr unchanged_def write_error_def dest!: steps_unchanged
      split: sum.splits error.splits)

lemma process_unchanged: "process s = Inr s' \<Longrightarrow> unchanged s s'"
  by (auto simp: process_def Let_def write_error_def
      dest!: map_of_SomeD handlers_unchanged split: if_splits option.splits builtin.splits)

lemma parse_blocks_frame [simp]:
  "pass_number (fst (parse_comment s l)) = pass_number s"
  "symbol_table (fst (parse_comment s l)) = symbol_table s"
  "pass_number (parse_directive_fields s d) = pass_number s"
  "symbol_table (parse_directive_fields s d) = symbol_table s"
  "pass_number (fst (parse_op2 s l)) = pass_number s"
  "symbol_table (fst (parse_op2 s l)) = symbol_table s"
  "pass_number (fst (parse_op1 s l)) = pass_number s"
  "symbol_table (fst (parse_op1 s l)) = symbol_table s"
  "pass_number (parse_mnemonic s l) = pass_number s"
  "symbol_table (parse_mnemonic s l) = symbol_table s"
  "pass_number (classify_op1 s) = pass_number s"
  "symbol_table (classify_op1 s) = symbol_table s"
  "pass_number (classify_op2 s) = pass_number s"
  "symbol_table (classify_op2 s) = symbol_table s"
  by (simp_all add: parse_comment_def parse_directive_fields_def parse_op2_def parse_op1_def
      parse_mnemonic_def classify_op1_def classify_op2_def Let_def split_beta)

lemma parse_unchanged: "parse s line = Inr s' \<Longrightarrow> unchanged s s'"
  by (auto simp: parse_def and_then_Inr Let_def split_beta unchanged_def)

lemma assemble_line_unchanged: "assemble_line s line = Inr s' \<Longrightarrow> unchanged s s'"
  by (auto simp: assemble_line_def and_then_Inr unchanged_def
      dest!: parse_unchanged process_unchanged)

lemma assemble_lines_unchanged: "assemble_lines s lines = Inr s' \<Longrightarrow> unchanged s s'"
proof (induction lines arbitrary: s)
  case Nil
  then show ?case by simp
next
  case (Cons line lines)
  from Cons.prems obtain t where
    line: "assemble_line s line = Inr t" and rest: "assemble_lines t lines = Inr s'"
    by (auto simp: and_then_Inr)
  from line have "unchanged s t" by (rule assemble_line_unchanged)
  moreover from rest have "unchanged t s'" by (rule Cons.IH)
  ultimately show ?case by (rule unchanged_trans)
qed

lemma pass_action_later:
  "pass_number s \<noteq> 1 \<Longrightarrow> pass_action s sz b = Inr (s\<lparr>output_bytes := output_bytes s @ b\<rparr>)"
  by (simp add: pass_action_def and_then_def)

lemma add_label_output: "add_label s = Inr s' \<Longrightarrow> output_bytes s' = output_bytes s"
  by (auto simp: add_label_def write_error_def Let_def split: if_splits)

lemma pass_action_output:
  "pass_action s sz b = Inr s' \<Longrightarrow> output_bytes s' = output_bytes s @ b"
  by (auto simp: pass_action_def and_then_Inr Let_def dest: add_label_output split: if_splits)

subsection \<open>Lower case, UTF-8 and the opcode word\<close>

lemma lower_char_idem: "lower_char (lower_char c) = lower_char c"
proof -
  have "(of_char c :: nat) < 256" by simp
  then show ?thesis by (simp add: lower_char_def Let_def)
qed

lemma lower_idem: "lower (lower x) = lower x"
  by (simp add: lower_def lower_char_idem)

lemma lower_Nil [simp]: "lower [] = []"
  by (simp add: lower_def)

lemma lower_translate_del: "lower (translate_del (lower x) ks) = translate_del (lower x) ks"
  by (induction x) (simp_all add: lower_def translate_del_def lower_char_idem)

lemma classify_op1_lower: "lower (op1 (classify_op1 s)) = op1 (classify_op1 s)"
  by (simp add: classify_op1_def Let_def lower_idem lower_translate_del)

lemma classify_op2_op1 [simp]: "op1 (classify_op2 s) = op1 s"
  by (simp add: classify_op2_def Let_def)

lemma parse_op1_lower: "parse s0 line = Inr s \<Longrightarrow> lower (op1 s) = op1 s"
  by (auto simp: parse_def and_then_Inr Let_def split_beta classify_op1_lower)

lemma utf8_ascii:
  "\<forall>c\<in>set xs. (of_char c :: nat) < 128 \<Longrightarrow> utf8 xs = map (\<lambda>c. of_nat (of_char c)) xs"
  by (induction xs) (simp_all add: utf8_def utf8_char_def)

lemma set_strip_chars: "set (strip_chars x cs) \<subseteq> set x"
  by (auto simp: strip_chars_def dest!: set_dropWhileD)

lemma index_registers_bound:
  "r \<in> set registers \<Longrightarrow> 0 \<le> index registers r \<and> index registers r < 7"
  by (auto simp: registers_def index_def)

lemma register_offset_bound: "register_offset s x = Inr r \<Longrightarrow> 0 \<le> r \<and> r < 7"
  using index_registers_bound [of "lower x"]
  by (simp add: register_offset_def Let_def write_error_def split: if_splits)

lemma encode_two_operands_eq:
  "encode_operand_types s opcode 2 =
     (if op2_type s = ''reg'' then
        and_then (register_offset s (op2 s)) (\<lambda>r. Inr (opcode * 4096 + r))
      else if op2_type s = ''mem_adr'' \<or> op2_type s = ''label'' then Inr (opcode * 4096 + 240)
      else if op2_type s = [] then Inr (opcode * 4096)
      else write_error s (''Invalid operand '' @ quoted (op2 s)))"
  by (simp add: encode_operand_types_def and_then_def push_bit_eq_mult)

lemma encode_two_operands:
  "encode_operand_types s opcode 2 = Inr w \<Longrightarrow> \<exists>r. 0 \<le> r \<and> r < 256 \<and> w = opcode * 4096 + r"
proof -
  assume ret: "encode_operand_types s opcode 2 = Inr w"
  consider (reg) "op2_type s = ''reg''"
    | (mem) "op2_type s \<noteq> ''reg''" "op2_type s = ''mem_adr'' \<or> op2_type s = ''label''"
    | (none) "op2_type s = []"
    | (other) "op2_type s \<noteq> ''reg''" "\<not> (op2_type s = ''mem_adr'' \<or> op2_type s = ''label'')"
        "op2_type s \<noteq> []"
    by blast
  then show ?thesis
  proof cases
    case reg
    with ret obtain r where "register_offset s (op2 s) = Inr r" and w: "w = opcode * 4096 + r"
      by (auto simp: encode_two_operands_eq and_then_Inr)
    then have "0 \<le> r \<and> r < 7" by (simp add: register_offset_bound)
    with w have "0 \<le> r \<and> r < 256 \<and> w = opcode * 4096 + r" by simp
    then show ?thesis by (rule exI)
  next
    case mem
    with ret have "w = opcode * 4096 + 240" by (simp add: encode_two_operands_eq)
    then have "(0::int) \<le> 240 \<and> (240::int) < 256 \<and> w = opcode * 4096 + 240" by simp
    then show ?thesis by (rule exI)
  next
    case none
    with ret have "w = opcode * 4096 + 0" by (simp add: encode_two_operands_eq)
    then have "(0::int) \<le> 0 \<and> (0::int) < 256 \<and> w = opcode * 4096 + 0" by simp
    then show ?thesis by (rule exI)
  next
    case other
    with ret show ?thesis by (simp add: encode_two_operands_eq write_error_def)
  qed
qed

lemma opcode_word_fields:
  fixes k r :: int
  assumes "0 \<le> r" and "r < 256"
  shows "(k * 4096 + r) div 4096 = k"
    and "(k * 4096 + r) div 256 mod 16 = 0"
    and "(k * 4096 + r) div 16 mod 16 = r div 16"
    and "(k * 4096 + r) mod 16 = r mod 16"
proof -
  have e256: "k * 4096 + r = k * 16 * 256 + r" and e16: "k * 4096 + r = k * 256 * 16 + r"
    by simp_all
  from assms show "(k * 4096 + r) div 4096 = k" by simp
  have "(k * 4096 + r) div 256 = k * 16 + r div 256"
    unfolding e256 by (rule div_mult_self3) simp
  with assms have "(k * 4096 + r) div 256 = k * 16" by simp
  then show "(k * 4096 + r) div 256 mod 16 = 0" by simp
  have "(k * 4096 + r) div 16 = k * 256 + r div 16"
    unfolding e16 by (rule div_mult_self3) simp
  also have "\<dots> = k * 16 * 16 + r div 16" by simp
  finally have "(k * 4096 + r) div 16 mod 16 = (k * 16 * 16 + r div 16) mod 16"
    by (simp only:)
  also have "\<dots> = r div 16 mod 16" by (rule mod_mult_self3)
  also from assms have "\<dots> = r div 16" by simp
  finally show "(k * 4096 + r) div 16 mod 16 = r div 16" .
  show "(k * 4096 + r) mod 16 = r mod 16"
    unfolding e16 by (rule mod_mult_self3)
qed

lemma encode_one_operand:
  "op1_type s \<in> {''imm'', ''mem_adr'', ''label'', []} \<Longrightarrow>
   encode_operand_types s opcode 1 =
     Inr (opcode * 4096 +
          (if op1_type s = ''imm'' then 224 else if op1_type s = [] then 0 else 240))"
  by (auto simp: encode_operand_types_def and_then_def push_bit_eq_mult)

section \<open>The claims\<close>

text \<open>
  C1. The output image is appended to only during pass 2: after pass 1 the accumulated
  output is empty, and pass 1 only advances the location counter.

  The code does otherwise. \<^verbatim>\<open>pass_action\<close> appends to \<^verbatim>\<open>self.output\<close> in every pass (the
  append stands after the \<^verbatim>\<open>if\<close>, not in an \<^verbatim>\<open>else\<close>), against its own docstring
  ("On pass 1: build symbol table. On pass 2: generate code."). For the one-line
  program \<^verbatim>\<open>hlt\<close> the first call of \<^verbatim>\<open>assemble\<close> leaves the two bytes of the opcode in
  the output and the location counter at 0, and the second call appends them again.
\<close>

theorem C1_first_traversal_emits_bytes:
  "map_sum id (\<lambda>s. (address s, output_bytes s)) (assemble initial [''hlt'']) =
     Inr (0, [0x00, 0xF0]) \<and>
   map_sum id output_bytes (two_passes [''hlt'']) = Inr [0x00, 0xF0, 0x00, 0xF0]"
  by (simp add: str_defs parse_defs asm_defs cong: let_weak_cong)

text \<open>
  C2. Whenever assembly runs to completion, the location counter has the same final
  value after pass 1 and after pass 2.

  The code does otherwise. \<^verbatim>\<open>address\<close> is never reset between the two calls of
  \<^verbatim>\<open>assemble\<close>, and both calls count the trailing words. For the one-line program
  \<^verbatim>\<open>push #5\<close> the counter is 1 after the first call and 2 after the second.
\<close>

theorem C2_address_doubles_in_second_traversal:
  "map_sum id address (assemble initial [''push #5'']) = Inr 1 \<and>
   map_sum id address (two_passes [''push #5'']) = Inr 2"
  by (simp add: str_defs parse_defs asm_defs cong: let_weak_cong)

text \<open>
  C3. In pass 1 every labelled statement that carries output bytes is entered into the
  symbol table at \<open>ORIGIN\<close> plus the location counter, and a label defined twice is a
  fatal duplicate-label error.

  The code does otherwise. The first-pass branch of \<^verbatim>\<open>pass_action\<close> is the only caller of
  \<^verbatim>\<open>add_label\<close>, and no pass has the number 1. The program of the spec's own example,
  \<^verbatim>\<open>foo: .data 1\<close> followed by \<^verbatim>\<open>foo: .data 2\<close> (two lines, each with its line feed), goes
  through both passes without an error and with an empty symbol table.
\<close>

theorem C3_duplicate_label_accepted:
  "map_sum id (\<lambda>s. (symbol_table s, output_bytes s))
     (two_passes [''foo: .data 1'' @ [CHR 0x0A], ''foo: .data 2'' @ [CHR 0x0A]]) =
     Inr ([], [1, 0, 2, 0, 1, 0, 2, 0])"
  by (simp add: str_defs parse_defs asm_defs cong: let_weak_cong)

text \<open>
  C4. For a mnemonic with at least one operand the operand-1 field is bits 11 to 8 of
  the opcode word: 0xE for an Immediate, 0xF for a MemoryAddress or LabelRef, the
  register index for a Register, 0 for an empty operand.

  As stated this fails. The encoder shifts the operand-1 code by four bits, not eight:
  for operand 1 as in \<^verbatim>\<open>push #5\<close> the word is 0x20E0, whose bits 11 to 8 are 0. And when
  the encoder is called with \<open>num_ops = 2\<close>, no pattern for operand 1 has a case: operands
  as in \<^verbatim>\<open>mv #5, a\<close> give the word 0x0000.
\<close>

theorem C4_operand1_field_counterexample:
  "map_sum id (\<lambda>w. (w, w div 256 mod 16))
     (encode_operand_types (initial\<lparr>op1 := ''5'', op1_type := ''imm''\<rparr>) 2 1) = Inr (0x20E0, 0) \<and>
   encode_operand_types
     (initial\<lparr>op1 := ''5'', op1_type := ''imm'', op2 := ''a'', op2_type := ''reg''\<rparr>) 0 2 = Inr 0"
  by (simp add: encode_operand_types_def register_offset_def index_def registers_def
      and_then_def initial_def str_defs)

text \<open>
  C4, amended. The handlers of \<^verbatim>\<open>push\<close>, \<^verbatim>\<open>pop\<close>, \<^verbatim>\<open>inc\<close>, \<^verbatim>\<open>dec\<close>, \<^verbatim>\<open>call\<close>, \<^verbatim>\<open>jnz\<close> and
  \<^verbatim>\<open>io\<close> call the encoder with \<open>num_ops = 1\<close>; those of \<^verbatim>\<open>mv\<close>, \<^verbatim>\<open>add\<close>, \<^verbatim>\<open>sub\<close>, \<^verbatim>\<open>and\<close>,
  \<^verbatim>\<open>or\<close>, \<^verbatim>\<open>not\<close> and \<^verbatim>\<open>cmp\<close> call it with \<open>num_ops = 2\<close>. Operand 1 is an Immediate, a
  MemoryAddress, a LabelRef or empty throughout; what the encoder does with a Register
  as operand 1 is left open, for either value of \<open>num_ops\<close>. The opcode is from 0 to 15.
  \<^item> With \<open>num_ops = 1\<close> the encoder returns a word whose bits 7 to 4 are the operand-1
    code: 0xE for an Immediate, 0xF for a MemoryAddress or LabelRef, 0 for an empty
    operand. Bits 15 to 12 hold the opcode; bits 11 to 8 and 3 to 0 are zero (\<^verbatim>\<open>io\<close> then
    adds its port code, 1 or 2).
  \<^item> With \<open>num_ops = 2\<close> the word is the same whichever of these kinds operand 1 has and
    whatever its text is, and bits 11 to 8 of the word are zero.
\<close>

theorem C4_operand1_field:
  assumes "0 \<le> opcode" and "opcode < 16"
  shows "(op1_type s \<in> {''imm'', ''mem_adr'', ''label'', []} \<longrightarrow>
            (\<exists>w. encode_operand_types s opcode 1 = Inr w \<and>
                 w div 4096 = opcode \<and> w div 256 mod 16 = 0 \<and>
                 w div 16 mod 16 =
                   (if op1_type s = ''imm'' then 14 else if op1_type s = [] then 0 else 15) \<and>
                 w mod 16 = 0)) \<and>
         (op1_type s \<in> {''imm'', ''mem_adr'', ''label'', []} \<longrightarrow>
          t \<in> {''imm'', ''mem_adr'', ''label'', []} \<longrightarrow>
            encode_operand_types (s\<lparr>op1 := x, op1_type := t\<rparr>) opcode 2 =
              encode_operand_types s opcode 2) \<and>
         (op1_type s \<in> {''imm'', ''mem_adr'', ''label'', []} \<longrightarrow>
            (\<forall>w. encode_operand_types s opcode 2 = Inr w \<longrightarrow>
               w div 4096 = opcode \<and> w div 256 mod 16 = 0))"
proof (intro conjI impI allI)
  assume kind: "op1_type s \<in> {''imm'', ''mem_adr'', ''label'', []}"
  define f :: int where
    "f = (if op1_type s = ''imm'' then 224 else if op1_type s = [] then 0 else 240)"
  have f: "0 \<le> f" "f < 256"
    and f16: "f div 16 = (if op1_type s = ''imm'' then 14 else if op1_type s = [] then 0 else 15)"
    and f0: "f mod 16 = 0"
    by (simp_all add: f_def)
  from kind have enc: "encode_operand_types s opcode 1 = Inr (opcode * 4096 + f)"
    unfolding f_def by (rule encode_one_operand)
  show "\<exists>w. encode_operand_types s opcode 1 = Inr w \<and>
          w div 4096 = opcode \<and> w div 256 mod 16 = 0 \<and>
          w div 16 mod 16 =
            (if op1_type s = ''imm'' then 14 else if op1_type s = [] then 0 else 15) \<and>
          w mod 16 = 0"
  proof (intro exI conjI)
    show "encode_operand_types s opcode 1 = Inr (opcode * 4096 + f)" by (rule enc)
    show "(opcode * 4096 + f) div 4096 = opcode" using f by (rule opcode_word_fields)
    show "(opcode * 4096 + f) div 256 mod 16 = 0" using f by (rule opcode_word_fields)
    show "(opcode * 4096 + f) div 16 mod 16 =
            (if op1_type s = ''imm'' then 14 else if op1_type s = [] then 0 else 15)"
      using opcode_word_fields(3) [OF f, of opcode] f16 by (simp only:)
    show "(opcode * 4096 + f) mod 16 = 0"
      using opcode_word_fields(4) [OF f, of opcode] f0 by (simp only:)
  qed
next
  show "encode_operand_types (s\<lparr>op1 := x, op1_type := t\<rparr>) opcode 2 =
        encode_operand_types s opcode 2"
    by (simp add: encode_two_operands_eq register_offset_def write_error_def Let_def)
next
  fix w
  assume "encode_operand_types s opcode 2 = Inr w"
  then obtain r where r: "0 \<le> r" "r < 256" and w: "w = opcode * 4096 + r"
    by (blast dest: encode_two_operands)
  from r show "w div 4096 = opcode" unfolding w by (rule opcode_word_fields)
  from r show "w div 256 mod 16 = 0" unfolding w by (rule opcode_word_fields)
qed

text \<open>
  The witness takes operand 1 as in \<^verbatim>\<open>io #65, out\<close> (opcode 1, \<open>num_ops = 1\<close>) and the
  operands as in \<^verbatim>\<open>add #5, b\<close> and \<^verbatim>\<open>add [10], b\<close> (opcode 4, \<open>num_ops = 2\<close>). Its last
  part is the line \<^verbatim>\<open>io #65, out\<close> from text to bytes: the word 0x10E2, low byte first,
  and the trailing word 65.
\<close>

theorem C4_operand1_field_witness:
  "(0::int) \<le> 1 \<and> (1::int) < 16 \<and> (0::int) \<le> 4 \<and> (4::int) < 16 \<and>
   op1_type (initial\<lparr>op1 := ''65'', op1_type := ''imm'', op2 := ''out'', op2_type := ''label''\<rparr>)
     \<in> {''imm'', ''mem_adr'', ''label'', []} \<and>
   (\<exists>w. encode_operand_types
          (initial\<lparr>op1 := ''65'', op1_type := ''imm'', op2 := ''out'', op2_type := ''label''\<rparr>) 1 1
          = Inr w \<and>
        w div 4096 = 1 \<and> w div 256 mod 16 = 0 \<and> w div 16 mod 16 = 14 \<and> w mod 16 = 0) \<and>
   op1_type (initial\<lparr>op1 := ''5'', op1_type := ''imm'', op2 := ''b'', op2_type := ''reg''\<rparr>)
     \<in> {''imm'', ''mem_adr'', ''label'', []} \<and>
   ''mem_adr'' \<in> {''imm'', ''mem_adr'', ''label'', []} \<and>
   encode_operand_types
     (initial\<lparr>op1 := ''5'', op1_type := ''imm'', op2 := ''b'', op2_type := ''reg''\<rparr>) 4 2
     = Inr 0x4001 \<and>
   encode_operand_types
     (initial\<lparr>op1 := ''10'', op1_type := ''mem_adr'', op2 := ''b'', op2_type := ''reg''\<rparr>) 4 2
     = Inr 0x4001 \<and>
   (0x4001 :: int) div 4096 = 4 \<and> (0x4001 :: int) div 256 mod 16 = 0 \<and>
   map_sum id output_bytes (assemble initial [''io #65, out'']) = Inr [0xE2, 0x10, 0x41, 0x00]"
proof -
  define S where
    "S = initial\<lparr>op1 := ''65'', op1_type := ''imm'', op2 := ''out'', op2_type := ''label''\<rparr>"
  have line: "map_sum id output_bytes (assemble initial [''io #65, out'']) =
                Inr [0xE2, 0x10, 0x41, 0x00]"
    by (simp add: str_defs parse_defs asm_defs cong: let_weak_cong)
  define T where
    "T = initial\<lparr>op1 := ''5'', op1_type := ''imm'', op2 := ''b'', op2_type := ''reg''\<rparr>"
  have k1: "(0::int) \<le> 1" "(1::int) < 16" and k4: "(0::int) \<le> 4" "(4::int) < 16"
    by simp_all
  have kindS: "op1_type S \<in> {''imm'', ''mem_adr'', ''label'', []}"
    and immS: "op1_type S = ''imm''"
    by (simp_all add: S_def)
  have kindT: "op1_type T \<in> {''imm'', ''mem_adr'', ''label'', []}"
    by (simp add: T_def)
  have kind: "''mem_adr'' \<in> {''imm'', ''mem_adr'', ''label'', []}"
    by simp
  have enc: "encode_operand_types T 4 2 = Inr 0x4001"
    by (simp add: T_def encode_operand_types_def register_offset_def index_def registers_def
        and_then_def initial_def str_defs)
  have upd: "T\<lparr>op1 := ''10'', op1_type := ''mem_adr''\<rparr> =
             initial\<lparr>op1 := ''10'', op1_type := ''mem_adr'', op2 := ''b'', op2_type := ''reg''\<rparr>"
    by (simp add: T_def)
  note io = C4_operand1_field [OF k1, where s = S]
  note two = C4_operand1_field [OF k4, where s = T and x = "''10''" and t = "''mem_adr''"]
  from io kindS
  have "\<exists>w. encode_operand_types S 1 1 = Inr w \<and>
          w div 4096 = 1 \<and> w div 256 mod 16 = 0 \<and>
          w div 16 mod 16 = (if op1_type S = ''imm'' then 14 else if op1_type S = [] then 0 else 15) \<and>
          w mod 16 = 0"
    by blast
  then have one: "\<exists>w. encode_operand_types S 1 1 = Inr w \<and>
          w div 4096 = 1 \<and> w div 256 mod 16 = 0 \<and> w div 16 mod 16 = 14 \<and> w mod 16 = 0"
    unfolding immS by simp
  from two kindT kind
  have "encode_operand_types (T\<lparr>op1 := ''10'', op1_type := ''mem_adr''\<rparr>) 4 2 =
        encode_operand_types T 4 2"
    by blast
  with enc have same: "encode_operand_types (T\<lparr>op1 := ''10'', op1_type := ''mem_adr''\<rparr>) 4 2
                         = Inr 0x4001"
    by simp
  from two kindT enc
  have high: "(0x4001 :: int) div 4096 = 4 \<and> (0x4001 :: int) div 256 mod 16 = 0"
    by blast
  from k1 k4 kindS one kindT kind enc same high line show ?thesis
    unfolding upd unfolding S_def T_def by (intro conjI) simp_all
qed

text \<open>
  C5. The source line \<^verbatim>\<open>mv a, #5\<close> assembles and produces the opcode word 0x00E0.

  As stated this fails: the line is rejected. Its second operand is classified as an
  Immediate, and the second \<^verbatim>\<open>match\<close> of \<^verbatim>\<open>encode_operand_types\<close> has no case for an
  Immediate, so its last case reports \<^verbatim>\<open>Invalid operand "5"\<close>.
\<close>

theorem C5_mv_a_imm5_counterexample:
  "assemble initial [''mv a, #5''] = Inl (Exit 1 (''Invalid operand '' @ quoted ''5''))"
  by (simp add: str_defs parse_defs asm_defs cong: let_weak_cong)

text \<open>
  C5, amended. The source line \<^verbatim>\<open>mv a, #5\<close> does not assemble: on whatever line and in
  whatever pass it is met, with or without a line feed after it, it ends the run with the
  fatal error \<^verbatim>\<open>Invalid operand "5"\<close>, and no opcode word is produced for it.
\<close>

theorem C5_mv_register_immediate_rejected:
  "assemble_line s ''mv a, #5'' =
     Inl (Exit (line_number s + 1) (''Invalid operand '' @ quoted ''5'')) \<and>
   assemble_line s (''mv a, #5'' @ [CHR 0x0A]) =
     Inl (Exit (line_number s + 1) (''Invalid operand '' @ quoted ''5''))"
  by (simp add: str_defs parse_defs asm_defs cong: let_weak_cong)

text \<open>
  C6. In pass 2 every MemoryAddress operand adds one little-endian unsigned 16-bit word
  with the hex-parsed address or the resolved label address.

  The code does otherwise. \<^verbatim>\<open>memory_address\<close> passes the integer it has just obtained to
  \<^verbatim>\<open>int(number, 16)\<close>, which takes a string, so no word is ever appended: the line
  \<^verbatim>\<open>push [4000]\<close> ends the run with \<^verbatim>\<open>TypeError\<close>.
\<close>

theorem C6_memory_operand_raises:
  "assemble initial [''push [4000]''] = Inl TypeError"
  by (simp add: str_defs parse_defs asm_defs cong: let_weak_cong)

text \<open>
  C7. A token that parses as a base-10 integer is a literal and is emitted as it is;
  only other tokens are looked up in the symbol table, where a missing symbol is a fatal
  undefined-label error.

  The code does otherwise for the integer 0. \<^verbatim>\<open>to_int(x) or get_label(x)\<close> goes on to
  \<^verbatim>\<open>get_label\<close> when \<^verbatim>\<open>to_int\<close> returns 0, so the line \<^verbatim>\<open>push #0\<close> ends the run with
  \<^verbatim>\<open>Undefined label "0"\<close> where the claim has the word 0 emitted.
\<close>

theorem C7_zero_literal_looked_up:
  "assemble initial [''push #0''] = Inl (Exit 1 (''Undefined label '' @ quoted ''0''))"
  by (simp add: str_defs parse_defs asm_defs cong: let_weak_cong)

text \<open>
  C8. A \<^verbatim>\<open>.string\<close> directive strips one layer of quotes, appends one NUL when the
  stripped length is odd and two when it is even, and emits the UTF-8 bytes; the byte
  count is always even; \<^verbatim>\<open>.string "AB"\<close> emits \<^verbatim>\<open>AB\<close> and two NULs.

  As stated this fails twice. The tokenizer lower-cases every operand, so the labelled
  line \<^verbatim>\<open>s: .string "AB"\<close> emits \<^verbatim>\<open>ab\<close> and two NULs, and \<^verbatim>\<open>s: .string "ABC"\<close> emits
  \<^verbatim>\<open>abc\<close> and one NUL. And the padding counts characters: the one character U+00E9 gets
  one NUL and is three bytes in UTF-8.
\<close>

theorem C8_string_directive_counterexample:
  "map_sum id output_bytes (assemble initial [''s: .string '' @ quoted ''AB'']) = Inr [0x61, 0x62, 0, 0] \<and>
   utf8 (''AB'' @ [nul, nul]) = [0x41, 0x42, 0, 0] \<and>
   map_sum id output_bytes (assemble initial [''s: .string '' @ quoted ''ABC'']) =
     Inr [0x61, 0x62, 0x63, 0] \<and>
   utf8 (''ABC'' @ [nul]) = [0x41, 0x42, 0x43, 0] \<and>
   map_sum id output_bytes (assemble initial [''s: .string '' @ quoted [CHR 0xE9]]) =
     Inr [0xC3, 0xA9, 0]"
  by (simp add: str_defs parse_defs asm_defs cong: let_weak_cong)

text \<open>
  C8, amended. For a labelled \<^verbatim>\<open>.string\<close> directive with one operand whose text is ASCII,
  \<^verbatim>\<open>directive_string\<close> takes operand 1 as the tokenizer left it, which is in lower case,
  strips the double quotes and then the single quotes at both ends, appends one NUL when
  the number of characters left is odd and two when it is even, and appends the result to
  the output, one byte for each character. The number of bytes emitted is always even.
  (An operand with a character outside ASCII is left open here.)
\<close>

theorem C8_directive_string_padding:
  assumes "label s \<noteq> []" and "op1 s \<noteq> []" and "op2 s = []"
    and "\<forall>c\<in>set (op1 s). (of_char c :: nat) < 128"
  shows "let content = strip_chars (strip_chars (op1 s) [dq]) [sq];
             padded = content @ (if odd (length content) then [nul] else [nul, nul])
         in (pass_number s \<noteq> 1 \<longrightarrow>
               directive_string s = Inr (s\<lparr>output_bytes := output_bytes s @ utf8 padded\<rparr>)) \<and>
            (\<forall>s'. directive_string s = Inr s' \<longrightarrow>
               output_bytes s' = output_bytes s @ utf8 padded) \<and>
            utf8 padded = map (\<lambda>c. of_nat (of_char c)) padded \<and>
            even (length (utf8 padded)) \<and>
            (parse s0 line = Inr s \<longrightarrow> lower (op1 s) = op1 s)"
proof -
  define content where "content = strip_chars (strip_chars (op1 s) [dq]) [sq]"
  define padded where "padded = content @ (if odd (length content) then [nul] else [nul, nul])"
  have run: "directive_string s = pass_action s (int (length (utf8 padded))) (utf8 padded)"
    using assms(1-3) by (simp add: directive_string_def verify_ops_def and_then_def Let_def
        content_def padded_def odd_iff_mod_2_eq_one)
  have later: "directive_string s = Inr (s\<lparr>output_bytes := output_bytes s @ utf8 padded\<rparr>)"
    if "pass_number s \<noteq> 1"
    using that by (simp add: run pass_action_later)
  have any: "output_bytes s' = output_bytes s @ utf8 padded" if "directive_string s = Inr s'" for s'
    using that by (simp add: run pass_action_output)
  have "set content \<subseteq> set (op1 s)"
    unfolding content_def using set_strip_chars [of "strip_chars (op1 s) [dq]" "[sq]"]
      set_strip_chars [of "op1 s" "[dq]"] by blast
  with assms(4) have "\<forall>c\<in>set content. (of_char c :: nat) < 128"
    by blast
  then have "\<forall>c\<in>set padded. (of_char c :: nat) < 128"
    by (auto simp: padded_def nul_def)
  then have bytes: "utf8 padded = map (\<lambda>c. of_nat (of_char c)) padded"
    by (rule utf8_ascii)
  have "even (length padded)"
    by (simp add: padded_def)
  with bytes have count: "even (length (utf8 padded))"
    by simp
  from later any bytes count parse_op1_lower [of s0 line s] show ?thesis
    unfolding Let_def content_def [symmetric] padded_def [symmetric] by blast
qed

text \<open>
  The witness is the line \<^verbatim>\<open>s: .string "AB"\<close> in a pass with the number 2: the tokenizer
  leaves \<^verbatim>\<open>"ab"\<close> as operand 1, and the directive appends \<^verbatim>\<open>ab\<close> and two NULs.
\<close>

theorem C8_directive_string_padding_witness:
  "parse (initial\<lparr>pass_number := 2\<rparr>) (''s: .string '' @ quoted ''AB'') =
     Inr (initial\<lparr>pass_number := 2, label := ''s'', mnemonic := ''.string'',
                  op1 := quoted ''ab'', op1_type := ''label''\<rparr>) \<and>
   directive_string (initial\<lparr>pass_number := 2, label := ''s'', mnemonic := ''.string'',
                             op1 := quoted ''ab'', op1_type := ''label''\<rparr>) =
     Inr (initial\<lparr>pass_number := 2, label := ''s'', mnemonic := ''.string'',
                  op1 := quoted ''ab'', op1_type := ''label'',
                  output_bytes := [0x61, 0x62, 0, 0]\<rparr>) \<and>
   utf8 (''ab'' @ [nul, nul]) = [0x61, 0x62, 0, 0] \<and>
   even (length (utf8 (''ab'' @ [nul, nul]))) \<and>
   lower (quoted ''ab'') = quoted ''ab''"
proof -
  define S where "S = initial\<lparr>pass_number := 2, label := ''s'', mnemonic := ''.string'',
                    op1 := quoted ''ab'', op1_type := ''label''\<rparr>"
  have tok: "parse (initial\<lparr>pass_number := 2\<rparr>) (''s: .string '' @ quoted ''AB'') = Inr S"
    unfolding S_def
    by (simp add: str_defs parse_defs and_then_def write_error_def initial_def
        cong: let_weak_cong)
  have pre: "label S \<noteq> []" "op1 S \<noteq> []" "op2 S = []"
    "\<forall>c\<in>set (op1 S). (of_char c :: nat) < 128"
    by (simp_all add: S_def initial_def quoted_def dq_def)
  have content: "strip_chars (strip_chars (op1 S) [dq]) [sq] = ''ab''"
    by (simp add: S_def strip_chars_def quoted_def dq_def sq_def)
  have later: "pass_number S \<noteq> 1"
    by (simp add: S_def)
  have pad: "''ab'' @ (if odd (length ''ab'') then [nul] else [nul, nul]) = ''ab'' @ [nul, nul]"
    by simp
  have bytes: "map (\<lambda>c. of_nat (of_char c)) (''ab'' @ [nul, nul]) = [0x61, 0x62, 0, 0 :: byte]"
    by (simp add: nul_def)
  note claim = C8_directive_string_padding
         [OF pre, where ?s0.0 = "initial\<lparr>pass_number := 2\<rparr>"
           and line = "''s: .string '' @ quoted ''AB''", unfolded Let_def content pad]
  from claim later
  have run: "directive_string S = Inr (S\<lparr>output_bytes := output_bytes S @ utf8 (''ab'' @ [nul, nul])\<rparr>)"
    by blast
  from claim have "utf8 (''ab'' @ [nul, nul]) = map (\<lambda>c. of_nat (of_char c)) (''ab'' @ [nul, nul])"
    by blast
  with bytes have emitted: "utf8 (''ab'' @ [nul, nul]) = [0x61, 0x62, 0, 0]"
    by (simp only:)
  from claim have count: "even (length (utf8 (''ab'' @ [nul, nul])))"
    by blast
  from claim tok have low: "lower (op1 S) = op1 S"
    by blast
  have out: "S\<lparr>output_bytes := output_bytes S @ [0x61, 0x62, 0, 0]\<rparr> =
             initial\<lparr>pass_number := 2, label := ''s'', mnemonic := ''.string'',
                  op1 := quoted ''ab'', op1_type := ''label'',
                  output_bytes := [0x61, 0x62, 0, 0]\<rparr>"
    by (simp add: S_def initial_def)
  have op: "op1 S = quoted ''ab''"
    by (simp add: S_def)
  from tok run [unfolded emitted out] emitted count low [unfolded op] show ?thesis
    unfolding S_def by (intro conjI)
qed

text \<open>
  C9. The first call of \<^verbatim>\<open>assemble\<close> already runs with \<^verbatim>\<open>pass_number\<close> 2: the class
  attribute starts at 1, \<^verbatim>\<open>hasattr\<close> holds, and the counter is incremented before the
  first line is read. So the first-pass branch of \<^verbatim>\<open>pass_action\<close> never runs, and the
  symbol table stays empty for the whole run.

  The theorem holds for every list of lines, hence for every prefix of a program: after
  any number of lines of the first traversal the pass number is 2 and the table is empty,
  after any number of lines of the second one the pass number is 3 and the table is
  empty, and in such a state \<^verbatim>\<open>pass_action\<close> only appends its bytes.
\<close>

theorem C9_first_pass_has_number_2:
  "assemble initial lines = assemble_lines (initial\<lparr>pass_number := 2\<rparr>) lines \<and>
   (\<forall>s1. assemble initial lines = Inr s1 \<longrightarrow>
      pass_number s1 = 2 \<and> symbol_table s1 = [] \<and>
      (\<forall>lines' s2. assemble s1 lines' = Inr s2 \<longrightarrow>
         pass_number s2 = 3 \<and> symbol_table s2 = [])) \<and>
   (\<forall>s sz b. pass_number s \<noteq> 1 \<longrightarrow>
      pass_action s sz b = Inr (s\<lparr>output_bytes := output_bytes s @ b\<rparr>))"
proof -
  have first: "assemble initial lines = assemble_lines (initial\<lparr>pass_number := 2\<rparr>) lines"
    by (simp add: assemble_def hasattr_pass_number_def initial_def)
  have "pass_number s1 = 2 \<and> symbol_table s1 = [] \<and>
        (\<forall>lines' s2. assemble s1 lines' = Inr s2 \<longrightarrow>
           pass_number s2 = 3 \<and> symbol_table s2 = [])"
    if ret: "assemble initial lines = Inr s1" for s1
  proof -
    from ret first have "unchanged (initial\<lparr>pass_number := 2\<rparr>) s1"
      by (simp add: assemble_lines_unchanged)
    then have s1: "pass_number s1 = 2" "symbol_table s1 = []"
      by (simp_all add: unchanged_def initial_def)
    have "pass_number s2 = 3 \<and> symbol_table s2 = []"
      if ret2: "assemble s1 lines' = Inr s2" for lines' s2
    proof -
      from ret2 have "unchanged (s1\<lparr>pass_number := 3\<rparr>) s2"
        by (simp add: assemble_def hasattr_pass_number_def s1 assemble_lines_unchanged)
      with s1 show ?thesis by (simp add: unchanged_def)
    qed
    with s1 show ?thesis by blast
  qed
  with first pass_action_later show ?thesis by blast
qed

theorem C9_first_pass_has_number_2_witness:
  "assemble initial [''hlt''] =
     Inr (initial\<lparr>line_number := 1, pass_number := 2, output_bytes := [0x00, 0xF0],
                  mnemonic := ''hlt''\<rparr>) \<and>
   pass_number (initial\<lparr>line_number := 1, pass_number := 2, output_bytes := [0x00, 0xF0],
                        mnemonic := ''hlt''\<rparr>) = 2 \<and>
   symbol_table (initial\<lparr>line_number := 1, pass_number := 2, output_bytes := [0x00, 0xF0],
                        mnemonic := ''hlt''\<rparr>) = [] \<and>
   assemble (initial\<lparr>line_number := 1, pass_number := 2, output_bytes := [0x00, 0xF0],
                      mnemonic := ''hlt''\<rparr>) [''hlt''] =
     Inr (initial\<lparr>line_number := 2, pass_number := 3,
                  output_bytes := [0x00, 0xF0, 0x00, 0xF0], mnemonic := ''hlt''\<rparr>) \<and>
   pass_number (initial\<lparr>line_number := 2, pass_number := 3,
                  output_bytes := [0x00, 0xF0, 0x00, 0xF0], mnemonic := ''hlt''\<rparr>) = 3 \<and>
   symbol_table (initial\<lparr>line_number := 2, pass_number := 3,
                  output_bytes := [0x00, 0xF0, 0x00, 0xF0], mnemonic := ''hlt''\<rparr>) = [] \<and>
   pass_number (initial\<lparr>pass_number := 2\<rparr>) \<noteq> 1 \<and>
   pass_action (initial\<lparr>pass_number := 2\<rparr>) 2 [0x00, 0xF0] =
     Inr (initial\<lparr>pass_number := 2, output_bytes := [0x00, 0xF0]\<rparr>)"
proof -
  let ?S1 = "initial\<lparr>line_number := 1, pass_number := 2, output_bytes := [0x00, 0xF0],
                     mnemonic := ''hlt''\<rparr>"
  let ?S2 = "initial\<lparr>line_number := 2, pass_number := 3,
                  output_bytes := [0x00, 0xF0, 0x00, 0xF0], mnemonic := ''hlt''\<rparr>"
  have first: "assemble initial [''hlt''] = Inr ?S1"
    by (simp add: str_defs parse_defs asm_defs cong: let_weak_cong)
  have second: "assemble ?S1 [''hlt''] = Inr ?S2"
    by (simp add: str_defs parse_defs asm_defs cong: let_weak_cong)
  have later: "pass_number (initial\<lparr>pass_number := 2\<rparr>) \<noteq> 1"
    by simp
  note claim = C9_first_pass_has_number_2 [of "[''hlt'']"]
  from claim first second
  have numbers: "pass_number ?S1 = 2 \<and> symbol_table ?S1 = [] \<and>
                 pass_number ?S2 = 3 \<and> symbol_table ?S2 = []"
    by blast
  from claim later
  have "pass_action (initial\<lparr>pass_number := 2\<rparr>) 2 [0x00, 0xF0] =
          Inr (initial\<lparr>pass_number := 2,
                 output_bytes := output_bytes (initial\<lparr>pass_number := 2\<rparr>) @ [0x00, 0xF0]\<rparr>)"
    by blast
  then have append: "pass_action (initial\<lparr>pass_number := 2\<rparr>) 2 [0x00, 0xF0] =
          Inr (initial\<lparr>pass_number := 2, output_bytes := [0x00, 0xF0]\<rparr>)"
    by (simp add: initial_def)
  from first second numbers later append show ?thesis by (intro conjI) simp_all
qed

text \<open>
  C10. An Immediate operand whose text is \<^verbatim>\<open>0\<close> is not emitted as a zero word in pass 2:
  \<^verbatim>\<open>to_int\<close> returns 0, which is falsy, so the symbol \<^verbatim>\<open>0\<close> is looked up, and the lookup
  ends in the fatal undefined-label error. (The lookup fails when the table has no entry
  \<^verbatim>\<open>0\<close>; by C9 the table is empty in every run.)
\<close>

theorem C10_immediate_zero_is_looked_up:
  assumes "op1_type s = ''imm''" and "op1 s = ''0''" and "pass_number s \<noteq> 1"
    and "map_of (symbol_table s) ''0'' = None"
  shows "to_int (op1 s) = Inr (Some 0) \<and>
         immediate_operand s = Inl (Exit (line_number s + 1) (''Undefined label '' @ quoted ''0''))"
  using assms
  by (simp add: immediate_operand_def to_int_or_get_label_def to_int_def get_label_def
      write_error_def and_then_def Let_def str_defs)

theorem C10_immediate_zero_is_looked_up_witness:
  "op1_type (initial\<lparr>pass_number := 2, mnemonic := ''push'', op1 := ''0'', op1_type := ''imm''\<rparr>) = ''imm'' \<and>
   op1 (initial\<lparr>pass_number := 2, mnemonic := ''push'', op1 := ''0'', op1_type := ''imm''\<rparr>) = ''0'' \<and>
   pass_number (initial\<lparr>pass_number := 2, mnemonic := ''push'', op1 := ''0'', op1_type := ''imm''\<rparr>) \<noteq> 1 \<and>
   map_of (symbol_table (initial\<lparr>pass_number := 2, mnemonic := ''push'', op1 := ''0'',
                                  op1_type := ''imm''\<rparr>)) ''0'' = None \<and>
   to_int ''0'' = Inr (Some 0) \<and>
   immediate_operand (initial\<lparr>pass_number := 2, mnemonic := ''push'', op1 := ''0'', op1_type := ''imm''\<rparr>)
     = Inl (Exit 1 (''Undefined label '' @ quoted ''0''))"
proof -
  let ?S = "initial\<lparr>pass_number := 2, mnemonic := ''push'', op1 := ''0'', op1_type := ''imm''\<rparr>"
  have pre: "op1_type ?S = ''imm''" "op1 ?S = ''0''" "pass_number ?S \<noteq> 1"
    "map_of (symbol_table ?S) ''0'' = None"
    by (simp_all add: initial_def)
  from C10_immediate_zero_is_looked_up [OF pre] pre show ?thesis
    by (simp add: initial_def)
qed

end
